theory Spec2Isabelle
  imports Main "HOL-Library.Sublist"
begin

section \<open>Python values, exceptions and the builtins the script calls\<close>

text \<open>
  The script (\<^verbatim>\<open>script2.py\<close>) works on the values that \<^verbatim>\<open>json.loads\<close> returns:
  \<^verbatim>\<open>None\<close>, booleans, unbounded integers, floats, strings, lists and dicts. Strings are
  byte lists (the UTF-8 encoding of the Python string), a dict is an association list
  read with \<open>map_of\<close>. The float type is a parameter \<open>'f\<close>: the script never computes
  with a float, it only converts to one and prints one.
\<close>

datatype 'f pyval =
    PNone
  | PBool bool
  | PInt int
  | PFloat 'f
  | PStr string
  | PList "'f pyval list"
  | PDict "(string \<times> 'f pyval) list"

text \<open>
  The three messages the script itself raises a \<^verbatim>\<open>ValueError\<close> with (their texts are
  Russian sentences in the source): line 31 (the JSON is not a list), line 35 (a point
  lacks one of id, latitude, longitude), line 64 (no points). \<open>Builtin\<close> marks a
  \<^verbatim>\<open>ValueError\<close> raised inside a builtin (\<^verbatim>\<open>int\<close>, \<^verbatim>\<open>float\<close>).
\<close>

datatype message = NotAList | MissingKeys | NoPoints | Builtin

datatype error =
    ValueError message
  | TypeError
  | KeyError
  | AttributeError
  | OverflowError
  | JSONDecodeError
  | OSError
  | UsageError

text \<open>
  What the script takes from the Python runtime and cannot be read off its own source:
  the conversions between strings, integers and floats, the printing of a float, and
  the JSON parser. Each is a field of the record below, so every theorem stated for an
  arbitrary \<open>L\<close> holds whatever the runtime does there.
\<close>

record 'f pylib =
  int_of_str :: "string \<Rightarrow> error + int"
  int_of_float :: "'f \<Rightarrow> error + int"
  float_of_str :: "string \<Rightarrow> error + 'f"
  float_of_int :: "int \<Rightarrow> error + 'f"
  float_repr :: "'f \<Rightarrow> string"
  json_loads :: "string \<Rightarrow> error + 'f pyval"

text \<open>\<^verbatim>\<open>int(v)\<close>: a bool is an int; \<^verbatim>\<open>None\<close>, a list and a dict raise \<^verbatim>\<open>TypeError\<close>.\<close>

fun py_int :: "'f pylib \<Rightarrow> 'f pyval \<Rightarrow> error + int" where
  "py_int L (PInt n) = Inr n"
| "py_int L (PBool b) = Inr (if b then 1 else 0)"
| "py_int L (PFloat x) = int_of_float L x"
| "py_int L (PStr s) = int_of_str L s"
| "py_int L PNone = Inl TypeError"
| "py_int L (PList xs) = Inl TypeError"
| "py_int L (PDict d) = Inl TypeError"

text \<open>\<^verbatim>\<open>float(v)\<close>.\<close>

fun py_float :: "'f pylib \<Rightarrow> 'f pyval \<Rightarrow> error + 'f" where
  "py_float L (PFloat x) = Inr x"
| "py_float L (PInt n) = float_of_int L n"
| "py_float L (PBool b) = float_of_int L (if b then 1 else 0)"
| "py_float L (PStr s) = float_of_str L s"
| "py_float L PNone = Inl TypeError"
| "py_float L (PList xs) = Inl TypeError"
| "py_float L (PDict d) = Inl TypeError"

text \<open>
  \<^verbatim>\<open>key in point\<close> for a string \<open>key\<close>: a key of a dict, an element of a list, a
  substring of a string; any other value is not a container and raises \<^verbatim>\<open>TypeError\<close>.
\<close>

fun is_str :: "string \<Rightarrow> 'f pyval \<Rightarrow> bool" where
  "is_str k (PStr s) = (s = k)"
| "is_str k v = False"

fun py_contains :: "string \<Rightarrow> 'f pyval \<Rightarrow> error + bool" where
  "py_contains k (PDict d) = Inr (k \<in> set (map fst d))"
| "py_contains k (PList xs) = Inr (list_ex (is_str k) xs)"
| "py_contains k (PStr s) = Inr (sublist k s)"
| "py_contains k PNone = Inl TypeError"
| "py_contains k (PBool b) = Inl TypeError"
| "py_contains k (PInt n) = Inl TypeError"
| "py_contains k (PFloat x) = Inl TypeError"

text \<open>
  \<^verbatim>\<open>point[key]\<close> for a string \<open>key\<close>: a dict is looked up; a string and a list take
  integer indices only, the other values are not subscriptable.
\<close>

fun py_getitem :: "'f pyval \<Rightarrow> string \<Rightarrow> error + 'f pyval" where
  "py_getitem (PDict d) k = (case map_of d k of None \<Rightarrow> Inl KeyError | Some v \<Rightarrow> Inr v)"
| "py_getitem v k = Inl TypeError"

text \<open>\<^verbatim>\<open>point.get(key)\<close>: \<^verbatim>\<open>None\<close> for a key the dict lacks; only a dict has the method.\<close>

fun py_get :: "'f pyval \<Rightarrow> string \<Rightarrow> error + 'f pyval" where
  "py_get (PDict d) k = (case map_of d k of None \<Rightarrow> Inr PNone | Some v \<Rightarrow> Inr v)"
| "py_get v k = Inl AttributeError"

text \<open>\<^verbatim>\<open>str(n)\<close> of an integer, and \<^verbatim>\<open>sep.join(xs)\<close>.\<close>

fun digits :: "nat \<Rightarrow> string" where
  "digits n = (if n < 10 then [''0123456789'' ! n] else digits (n div 10) @ [''0123456789'' ! (n mod 10)])"

definition py_str_int :: "int \<Rightarrow> string" where
  "py_str_int n = (if n < 0 then ''-'' @ digits (nat (- n)) else digits (nat n))"

fun join :: "string \<Rightarrow> string list \<Rightarrow> string" where
  "join sep [] = []"
| "join sep [x] = x"
| "join sep (x # y # ys) = x @ sep @ join sep (y # ys)"

section \<open>\<^verbatim>\<open>urllib.parse.urlencode\<close>\<close>

text \<open>
  \<^verbatim>\<open>quote\<close> keeps the bytes of \<^verbatim>\<open>_ALWAYS_SAFE\<close> (letters, digits and \<^verbatim>\<open>_.-~\<close>) and of
  \<open>safe\<close>, and writes every other byte as \<^verbatim>\<open>%XX\<close> with upper-case hex digits.
  \<^verbatim>\<open>quote_plus\<close> also turns a space into \<^verbatim>\<open>+\<close>. \<^verbatim>\<open>urlencode\<close> applies \<^verbatim>\<open>quote_plus\<close> to
  \<^verbatim>\<open>str(k)\<close> and \<^verbatim>\<open>str(v)\<close> of each item and joins \<^verbatim>\<open>k=v\<close> with \<^verbatim>\<open>&\<close>.
\<close>

definition always_safe :: "char \<Rightarrow> bool" where
  "always_safe c =
     (c \<in> set ''ABCDEFGHIJKLMNOPQRSTUVWXYZabcdefghijklmnopqrstuvwxyz0123456789_.-~'')"

definition hex_digit :: "nat \<Rightarrow> char" where
  "hex_digit n = ''0123456789ABCDEF'' ! n"

definition percent :: "char \<Rightarrow> string" where
  "percent c = [CHR ''%'', hex_digit (of_char c div 16), hex_digit (of_char c mod 16)]"

definition quote :: "string \<Rightarrow> string \<Rightarrow> string" where
  "quote safe s = concat (map (\<lambda>c. if always_safe c \<or> c \<in> set safe then [c] else percent c) s)"

definition quote_plus :: "string \<Rightarrow> string" where
  "quote_plus s =
     (if CHR '' '' \<notin> set s then quote [] s
      else map (\<lambda>c. if c = CHR '' '' then CHR ''+'' else c) (quote '' '' s))"

datatype qval = QStr string | QInt int

fun py_str :: "qval \<Rightarrow> string" where
  "py_str (QStr s) = s"
| "py_str (QInt n) = py_str_int n"

definition urlencode :: "(string \<times> qval) list \<Rightarrow> string" where
  "urlencode query = join ''&'' (map (\<lambda>(k, v). quote_plus k @ ''='' @ quote_plus (py_str v)) query)"

section \<open>The script: \<^verbatim>\<open>Point\<close> and \<^verbatim>\<open>YandexMapGenerator\<close>\<close>

text \<open>
  A method that assigns to \<^verbatim>\<open>self._points\<close> returns the generator it leaves, with the
  exception it raised, if any. The calls to \<^verbatim>\<open>logging\<close> write log lines and decide
  nothing; they are left out.
\<close>

record 'f point =
  point_id :: int
  latitude :: 'f
  longitude :: 'f
  title :: "'f pyval"

record 'f generator =
  zoom :: int
  lang :: string
  points :: "'f point list"

text \<open>\<^verbatim>\<open>YandexMapGenerator(zoom=5, lang="ru_RU")\<close>.\<close>

definition new_generator :: "int \<Rightarrow> string \<Rightarrow> 'f generator" where
  "new_generator z l = \<lparr>zoom = z, lang = l, points = []\<rparr>"

definition default_generator :: "'f generator" where
  "default_generator = new_generator 5 ''ru_RU''"

text \<open>
  Line 34: \<^verbatim>\<open>all(key in point for key in ["id", "latitude", "longitude"])\<close>, which stops at
  the first key that is absent and lets a \<^verbatim>\<open>TypeError\<close> of \<^verbatim>\<open>in\<close> through.
\<close>

fun all_keys_in :: "string list \<Rightarrow> 'f pyval \<Rightarrow> error + bool" where
  "all_keys_in [] p = Inr True"
| "all_keys_in (k # ks) p =
     (case py_contains k p of
        Inl e \<Rightarrow> Inl e
      | Inr False \<Rightarrow> Inr False
      | Inr True \<Rightarrow> all_keys_in ks p)"

definition required_keys :: "string list" where
  "required_keys = [''id'', ''latitude'', ''longitude'']"

text \<open>
  Lines 36 to 41: the arguments of \<^verbatim>\<open>Point(...)\<close> are evaluated from left to right, and
  the first conversion that raises ends the call.
\<close>

definition make_point :: "'f pylib \<Rightarrow> 'f pyval \<Rightarrow> error + 'f point" where
  "make_point L p =
     (case py_getitem p ''id'' of Inl e \<Rightarrow> Inl e | Inr vi \<Rightarrow>
      case py_int L vi of Inl e \<Rightarrow> Inl e | Inr i \<Rightarrow>
      case py_getitem p ''latitude'' of Inl e \<Rightarrow> Inl e | Inr vlat \<Rightarrow>
      case py_float L vlat of Inl e \<Rightarrow> Inl e | Inr lat \<Rightarrow>
      case py_getitem p ''longitude'' of Inl e \<Rightarrow> Inl e | Inr vlon \<Rightarrow>
      case py_float L vlon of Inl e \<Rightarrow> Inl e | Inr lon \<Rightarrow>
      case py_get p ''title'' of Inl e \<Rightarrow> Inl e | Inr t \<Rightarrow>
      Inr \<lparr>point_id = i, latitude = lat, longitude = lon, title = t\<rparr>)"

text \<open>One pass of the loop body of lines 33 to 41.\<close>

definition load_point :: "'f pylib \<Rightarrow> 'f pyval \<Rightarrow> error + 'f point" where
  "load_point L p =
     (case all_keys_in required_keys p of
        Inl e \<Rightarrow> Inl e
      | Inr False \<Rightarrow> Inl (ValueError MissingKeys)
      | Inr True \<Rightarrow> make_point L p)"

text \<open>
  The loop of lines 33 to 41 over \<^verbatim>\<open>self._points\<close>: the points appended so far, and the
  exception that ended the loop, if one did.
\<close>

fun parse_loop :: "'f pylib \<Rightarrow> 'f point list \<Rightarrow> 'f pyval list \<Rightarrow> error option \<times> 'f point list" where
  "parse_loop L acc [] = (None, acc)"
| "parse_loop L acc (p # ps) =
     (case load_point L p of
        Inl e \<Rightarrow> (Some e, acc)
      | Inr pt \<Rightarrow> parse_loop L (acc @ [pt]) ps)"

text \<open>
  \<^verbatim>\<open>_parse_points\<close> (lines 28 to 42). The result is the exception raised, if any, and the
  generator as the call leaves it: \<^verbatim>\<open>self._points\<close> is reset on line 32, before the loop.
\<close>

fun parse_points :: "'f pylib \<Rightarrow> 'f generator \<Rightarrow> 'f pyval \<Rightarrow> error option \<times> 'f generator" where
  "parse_points L g (PList xs) =
     (case parse_loop L [] xs of (r, pts) \<Rightarrow> (r, g\<lparr>points := pts\<rparr>))"
| "parse_points L g v = (Some (ValueError NotAList), g)"

text \<open>
  The file system as \<^verbatim>\<open>load_points\<close> sees it: \<open>fs path\<close> is \<open>None\<close> when
  \<^verbatim>\<open>os.path.isfile(path)\<close> is false, \<open>Some (Inr text)\<close> when the path is a regular file
  that \<^verbatim>\<open>open\<close> and \<^verbatim>\<open>read\<close> decode to \<open>text\<close>, and \<open>Some (Inl e)\<close> when it is a regular
  file that \<^verbatim>\<open>open\<close> or \<^verbatim>\<open>read\<close> raises \<open>e\<close> on.
\<close>

type_synonym filesystem = "string \<Rightarrow> (error + string) option"

text \<open>
  \<^verbatim>\<open>load_points\<close> (lines 44 to 59). The \<^verbatim>\<open>except\<close> clause logs and raises again, so it
  changes no result.
\<close>

definition load_points :: "'f pylib \<Rightarrow> filesystem \<Rightarrow> 'f generator \<Rightarrow> string \<Rightarrow> error option \<times> 'f generator" where
  "load_points L fs g json_input =
     (case (case fs json_input of
              Some (Inl e) \<Rightarrow> Inl e
            | Some (Inr text) \<Rightarrow> json_loads L text
            | None \<Rightarrow> json_loads L json_input) of
        Inl e \<Rightarrow> (Some e, g)
      | Inr data \<Rightarrow> parse_points L g data)"

text \<open>\<^verbatim>\<open>generate_map_url\<close> (lines 61 to 76).\<close>

definition marker_token :: "'f pylib \<Rightarrow> 'f point \<Rightarrow> string" where
  "marker_token L p =
     float_repr L (longitude p) @ '','' @ float_repr L (latitude p) @ '',pmwtm'' @ py_str_int (point_id p)"

definition center :: "'f pylib \<Rightarrow> 'f point \<Rightarrow> string" where
  "center L p = float_repr L (longitude p) @ '','' @ float_repr L (latitude p)"

definition url_params :: "'f pylib \<Rightarrow> 'f generator \<Rightarrow> 'f point \<Rightarrow> (string \<times> qval) list" where
  "url_params L g p0 =
     [(''ll'', QStr (center L p0)),
      (''z'', QInt (zoom g)),
      (''lang'', QStr (lang g)),
      (''pt'', QStr (join ''~'' (map (marker_token L) (points g))))]"

definition base_url :: string where
  "base_url = ''https://maps.yandex.ru/''"

definition generate_map_url :: "'f pylib \<Rightarrow> 'f generator \<Rightarrow> error + string" where
  "generate_map_url L g =
     (case points g of
        [] \<Rightarrow> Inl (ValueError NoPoints)
      | p0 # _ \<Rightarrow> Inr (base_url @ ''?'' @ urlencode (url_params L g p0)))"

text \<open>
  \<^verbatim>\<open>display_map\<close> (lines 78 to 82): the result is the URL handed to \<^verbatim>\<open>webbrowser.open\<close>.
\<close>

definition display_map :: "'f pylib \<Rightarrow> 'f generator \<Rightarrow> error + string" where
  "display_map L g = generate_map_url L g"

text \<open>
  \<^verbatim>\<open>main\<close> (lines 85 to 101), after \<^verbatim>\<open>parse_args\<close>: \<open>json_input\<close> is the positional argument
  (\<open>None\<close> when absent), \<open>use_stdin\<close> the flag \<^verbatim>\<open>--stdin\<close>. An empty positional argument
  is falsy, so it is a usage error like an absent one.
\<close>

record args =
  json_input :: "string option"
  use_stdin :: bool

definition main :: "'f pylib \<Rightarrow> filesystem \<Rightarrow> string \<Rightarrow> args \<Rightarrow> error + string" where
  "main L fs stdin a =
     (let map_generator = default_generator in
      if use_stdin a then
        (case load_points L fs map_generator stdin of
           (Some e, g) \<Rightarrow> Inl e
         | (None, g) \<Rightarrow> display_map L g)
      else
        (case json_input a of
           Some s \<Rightarrow>
             (if s \<noteq> [] then
                (case load_points L fs map_generator s of
                   (Some e, g) \<Rightarrow> Inl e
                 | (None, g) \<Rightarrow> display_map L g)
              else Inl UsageError)
         | None \<Rightarrow> Inl UsageError))"

section \<open>A reference runtime\<close>

text \<open>
  A small instance of the runtime, used to evaluate the script on concrete inputs. A
  float is a decimal \<open>Dec m k\<close>, standing for \<open>m / 10 ^ k\<close> with no trailing zero among
  its \<open>k\<close> decimals, or one of the three special values. On the decimals with at most
  15 significant digits and a magnitude from \<^verbatim>\<open>1e-4\<close> up to \<^verbatim>\<open>1e16\<close> this is what
  CPython does: \<^verbatim>\<open>repr(float(s))\<close> prints such a decimal back in positional notation,
  and \<^verbatim>\<open>int\<close> of a float drops the decimals. Not covered: the rounding of longer
  decimals to a double, scientific notation in \<^verbatim>\<open>repr\<close>, the negative zero, underscores
  and non-ASCII digits in numeric strings, \<^verbatim>\<open>\u\<close> escapes in JSON strings.
\<close>

datatype pyfloat = Dec int nat | NaN | PosInf | NegInf

fun normalize :: "int \<Rightarrow> nat \<Rightarrow> pyfloat" where
  "normalize m 0 = Dec m 0"
| "normalize m (Suc k) = (if m mod 10 = 0 then normalize (m div 10) k else Dec m (Suc k))"

definition repr_dec :: "int \<Rightarrow> nat \<Rightarrow> string" where
  "repr_dec m k =
     (let a = nat \<bar>m\<bar>; frac = digits (a mod 10 ^ k)
      in (if m < 0 then ''-'' else [])
         @ digits (a div 10 ^ k) @ ''.''
         @ (if k = 0 then ''0'' else replicate (k - length frac) (CHR ''0'') @ frac))"

fun ref_float_repr :: "pyfloat \<Rightarrow> string" where
  "ref_float_repr (Dec m k) = repr_dec m k"
| "ref_float_repr NaN = ''nan''"
| "ref_float_repr PosInf = ''inf''"
| "ref_float_repr NegInf = ''-inf''"

text \<open>\<^verbatim>\<open>int(x)\<close> of a float truncates toward zero, and raises on the special values.\<close>

fun ref_int_of_float :: "pyfloat \<Rightarrow> error + int" where
  "ref_int_of_float (Dec m k) = Inr (sgn m * (\<bar>m\<bar> div 10 ^ k))"
| "ref_int_of_float NaN = Inl (ValueError Builtin)"
| "ref_int_of_float PosInf = Inl OverflowError"
| "ref_int_of_float NegInf = Inl OverflowError"

definition ref_float_of_int :: "int \<Rightarrow> error + pyfloat" where
  "ref_float_of_int n = Inr (Dec n 0)"

definition is_digit :: "char \<Rightarrow> bool" where
  "is_digit c = (c \<in> set ''0123456789'')"

definition nat_of_digits :: "string \<Rightarrow> nat" where
  "nat_of_digits ds = foldl (\<lambda>a c. 10 * a + (of_char c - 48)) 0 ds"

text \<open>The ASCII characters that \<^verbatim>\<open>str.strip\<close> removes, and those JSON skips.\<close>

definition py_space :: "char \<Rightarrow> bool" where
  "py_space c = (let n = of_char c :: nat in (9 \<le> n \<and> n \<le> 13) \<or> (28 \<le> n \<and> n \<le> 32))"

definition json_space :: "char \<Rightarrow> bool" where
  "json_space c = (c \<in> set [CHR '' '', CHR 0x09, CHR 0x0A, CHR 0x0D])"

definition strip :: "string \<Rightarrow> string" where
  "strip s = rev (dropWhile py_space (rev (dropWhile py_space s)))"

definition skip_ws :: "string \<Rightarrow> string" where
  "skip_ws s = dropWhile json_space s"

text \<open>An optional sign: whether it is a minus, and what follows it.\<close>

fun sign_of :: "string \<Rightarrow> bool \<times> string" where
  "sign_of [] = (False, [])"
| "sign_of (c # cs) =
     (if c = CHR ''-'' then (True, cs) else if c = CHR ''+'' then (False, cs) else (False, c # cs))"

text \<open>\<^verbatim>\<open>int(s)\<close> of a string: blanks, a sign, decimal digits, blanks.\<close>

definition ref_int_of_str :: "string \<Rightarrow> error + int" where
  "ref_int_of_str s =
     (case sign_of (strip s) of (neg, ds) \<Rightarrow>
        if ds \<noteq> [] \<and> list_all is_digit ds
        then Inr (if neg then - int (nat_of_digits ds) else int (nat_of_digits ds))
        else Inl (ValueError Builtin))"

text \<open>
  The decimal with integer digits \<open>ip\<close>, fraction digits \<open>fp\<close> and decimal exponent
  \<open>e\<close>.
\<close>

definition mk_dec :: "bool \<Rightarrow> string \<Rightarrow> string \<Rightarrow> int \<Rightarrow> pyfloat" where
  "mk_dec neg ip fp e =
     (let m = int (nat_of_digits (ip @ fp)); m' = (if neg then - m else m); k = int (length fp)
      in if k \<le> e then Dec (m' * 10 ^ nat (e - k)) 0 else normalize m' (nat (k - e)))"

text \<open>
  An optional exponent \<^verbatim>\<open>[eE][+-]?digits\<close> at the head of a string: its value (0 when
  there is none) and what follows it.
\<close>

definition scan_exponent :: "string \<Rightarrow> (int \<times> string) option" where
  "scan_exponent s =
     (case s of
        [] \<Rightarrow> None
      | c # r \<Rightarrow>
          if c = CHR ''e'' \<or> c = CHR ''E'' then
            (case sign_of r of (neg, r') \<Rightarrow>
               let ds = takeWhile is_digit r' in
               if ds = [] then None
               else Some (if neg then - int (nat_of_digits ds) else int (nat_of_digits ds),
                          dropWhile is_digit r'))
          else None)"

text \<open>
  \<^verbatim>\<open>float(s)\<close> of a string: blanks, a sign, then \<^verbatim>\<open>nan\<close>, \<^verbatim>\<open>inf\<close> or \<^verbatim>\<open>infinity\<close> in any
  case, or digits with an optional point and exponent (a digit on one side of the
  point at least), then blanks.
\<close>

definition lower :: "string \<Rightarrow> string" where
  "lower s =
     map (\<lambda>c. let n = of_char c :: nat in if 65 \<le> n \<and> n \<le> 90 then char_of (n + 32) else c) s"

definition ref_float_of_str :: "string \<Rightarrow> error + pyfloat" where
  "ref_float_of_str s =
     (case sign_of (strip s) of (neg, t) \<Rightarrow>
        if lower t = ''nan'' then Inr NaN
        else if lower t = ''inf'' \<or> lower t = ''infinity'' then Inr (if neg then NegInf else PosInf)
        else
          let ip = takeWhile is_digit t; t1 = dropWhile is_digit t;
              pt = (t1 \<noteq> [] \<and> hd t1 = CHR ''.'');
              fp = (if pt then takeWhile is_digit (tl t1) else []);
              t2 = (if pt then dropWhile is_digit (tl t1) else t1)
          in if ip @ fp = [] then Inl (ValueError Builtin)
             else if t2 = [] then Inr (mk_dec neg ip fp 0)
             else (case scan_exponent t2 of
                     Some (e, []) \<Rightarrow> Inr (mk_dec neg ip fp e)
                   | _ \<Rightarrow> Inl (ValueError Builtin)))"

subsection \<open>\<^verbatim>\<open>json.loads\<close>\<close>

text \<open>
  A JSON number, \<^verbatim>\<open>-?(0|[1-9][0-9]*)(\.[0-9]+)?([eE][-+]?[0-9]+)?\<close>, at the head of a
  string: an integer when it has neither fraction nor exponent, else a float.
\<close>

definition json_number :: "string \<Rightarrow> (pyfloat pyval \<times> string) option" where
  "json_number s =
     (let neg = (s \<noteq> [] \<and> hd s = CHR ''-''); s1 = (if neg then tl s else s);
          ip = (if s1 \<noteq> [] \<and> hd s1 = CHR ''0'' then ''0'' else takeWhile is_digit s1);
          s2 = drop (length ip) s1;
          fp = (if s2 \<noteq> [] \<and> hd s2 = CHR ''.'' then takeWhile is_digit (tl s2) else []);
          s3 = (if fp = [] then s2 else drop (Suc (length fp)) s2)
      in if ip = [] then None
         else (case scan_exponent s3 of
                 Some (e, s4) \<Rightarrow> Some (PFloat (mk_dec neg ip fp e), s4)
               | None \<Rightarrow>
                   if fp = [] then
                     Some (PInt (if neg then - int (nat_of_digits ip) else int (nat_of_digits ip)), s3)
                   else Some (PFloat (mk_dec neg ip fp 0), s3)))"

text \<open>The character an escape \<^verbatim>\<open>\c\<close> stands for (\<^verbatim>\<open>\u\<close> is not covered).\<close>

definition unescape :: "char \<Rightarrow> char option" where
  "unescape c =
     (if c = CHR 0x22 \<or> c = CHR 0x5C \<or> c = CHR ''/'' then Some c
      else if c = CHR ''n'' then Some (CHR 0x0A)
      else if c = CHR ''t'' then Some (CHR 0x09)
      else if c = CHR ''r'' then Some (CHR 0x0D)
      else if c = CHR ''b'' then Some (CHR 0x08)
      else if c = CHR ''f'' then Some (CHR 0x0C)
      else None)"

text \<open>A JSON string after its opening quote: its content and what follows the closing quote.\<close>

fun json_string :: "string \<Rightarrow> string \<Rightarrow> (string \<times> string) option" where
  "json_string acc [] = None"
| "json_string acc (c # cs) =
     (if c = CHR 0x22 then Some (acc, cs)
      else if c = CHR 0x5C then
        (case cs of
           [] \<Rightarrow> None
         | e # r \<Rightarrow> (case unescape e of None \<Rightarrow> None | Some x \<Rightarrow> json_string (acc @ [x]) r))
      else if (of_char c :: nat) < 32 then None
      else json_string (acc @ [c]) cs)"

text \<open>\<^verbatim>\<open>d[k] = v\<close>: a key met again keeps its place and takes the new value.\<close>

fun dict_set :: "string \<Rightarrow> 'v \<Rightarrow> (string \<times> 'v) list \<Rightarrow> (string \<times> 'v) list" where
  "dict_set k v [] = [(k, v)]"
| "dict_set k v ((k', v') # d) = (if k' = k then (k, v) # d else (k', v') # dict_set k v d)"

text \<open>
  The values, by recursive descent. The first argument bounds the number of nested
  calls; \<open>ref_json_loads\<close> starts it above the length of the text.
\<close>

fun json_value :: "nat \<Rightarrow> string \<Rightarrow> (pyfloat pyval \<times> string) option"
  and json_elems :: "nat \<Rightarrow> pyfloat pyval list \<Rightarrow> string \<Rightarrow> (pyfloat pyval list \<times> string) option"
  and json_members :: "nat \<Rightarrow> (string \<times> pyfloat pyval) list \<Rightarrow> string \<Rightarrow> ((string \<times> pyfloat pyval) list \<times> string) option"
where
  "json_value 0 s = None"
| "json_value (Suc n) s =
     (let t = skip_ws s in
      if t = [] then None
      else if hd t = CHR 0x22 then
        (case json_string [] (tl t) of None \<Rightarrow> None | Some (x, r) \<Rightarrow> Some (PStr x, r))
      else if hd t = CHR ''['' then
        (let r = skip_ws (tl t) in
         if r \<noteq> [] \<and> hd r = CHR '']'' then Some (PList [], tl r)
         else (case json_elems n [] r of None \<Rightarrow> None | Some (xs, r') \<Rightarrow> Some (PList xs, r')))
      else if hd t = CHR ''{'' then
        (let r = skip_ws (tl t) in
         if r \<noteq> [] \<and> hd r = CHR ''}'' then Some (PDict [], tl r)
         else (case json_members n [] r of None \<Rightarrow> None | Some (d, r') \<Rightarrow> Some (PDict d, r')))
      else if prefix ''null'' t then Some (PNone, drop 4 t)
      else if prefix ''true'' t then Some (PBool True, drop 4 t)
      else if prefix ''false'' t then Some (PBool False, drop 5 t)
      else if prefix ''NaN'' t then Some (PFloat NaN, drop 3 t)
      else if prefix ''Infinity'' t then Some (PFloat PosInf, drop 8 t)
      else if prefix ''-Infinity'' t then Some (PFloat NegInf, drop 9 t)
      else json_number t)"
| "json_elems 0 acc s = None"
| "json_elems (Suc n) acc s =
     (case json_value n s of
        None \<Rightarrow> None
      | Some (v, r) \<Rightarrow>
          (let t = skip_ws r in
           if t = [] then None
           else if hd t = CHR '','' then json_elems n (acc @ [v]) (tl t)
           else if hd t = CHR '']'' then Some (acc @ [v], tl t)
           else None))"
| "json_members 0 acc s = None"
| "json_members (Suc n) acc s =
     (let t = skip_ws s in
      if t = [] \<or> hd t \<noteq> CHR 0x22 then None
      else
        (case json_string [] (tl t) of
           None \<Rightarrow> None
         | Some (k, r) \<Rightarrow>
             (let t1 = skip_ws r in
              if t1 = [] \<or> hd t1 \<noteq> CHR '':'' then None
              else
                (case json_value n (tl t1) of
                   None \<Rightarrow> None
                 | Some (v, r1) \<Rightarrow>
                     (let t2 = skip_ws r1 in
                      if t2 = [] then None
                      else if hd t2 = CHR '','' then json_members n (dict_set k v acc) (tl t2)
                      else if hd t2 = CHR ''}'' then Some (dict_set k v acc, tl t2)
                      else None)))))"

definition ref_json_loads :: "string \<Rightarrow> error + pyfloat pyval" where
  "ref_json_loads s =
     (case json_value (Suc (length s)) s of
        None \<Rightarrow> Inl JSONDecodeError
      | Some (v, r) \<Rightarrow> if skip_ws r = [] then Inr v else Inl JSONDecodeError)"

definition refpy :: "pyfloat pylib" where
  "refpy =
     \<lparr>int_of_str = ref_int_of_str,
      int_of_float = ref_int_of_float,
      float_of_str = ref_float_of_str,
      float_of_int = ref_float_of_int,
      float_repr = ref_float_repr,
      json_loads = ref_json_loads\<rparr>"

section \<open>Example inputs\<close>

text \<open>
  The two-point input of the specification's end-to-end example, as JSON text and as the
  value \<^verbatim>\<open>json.loads\<close> returns for it, the points it loads to, and the URL it yields.
\<close>

definition example_json :: string where
  \<open>example_json = ''[{"id":1,"latitude":55.75,"longitude":37.62,"title":"A"},{"id":2,"latitude":59.93,"longitude":30.33}]''\<close>

definition moscow :: "pyfloat pyval" where
  "moscow = PDict [(''id'', PInt 1), (''latitude'', PFloat (Dec 5575 2)),
                   (''longitude'', PFloat (Dec 3762 2)), (''title'', PStr ''A'')]"

definition petersburg :: "pyfloat pyval" where
  "petersburg = PDict [(''id'', PInt 2), (''latitude'', PFloat (Dec 5993 2)),
                       (''longitude'', PFloat (Dec 3033 2))]"

definition moscow_point :: "pyfloat point" where
  "moscow_point = \<lparr>point_id = 1, latitude = Dec 5575 2, longitude = Dec 3762 2, title = PStr ''A''\<rparr>"

definition petersburg_point :: "pyfloat point" where
  "petersburg_point = \<lparr>point_id = 2, latitude = Dec 5993 2, longitude = Dec 3033 2, title = PNone\<rparr>"

definition example_url :: string where
  "example_url = ''https://maps.yandex.ru/?ll=37.62%2C55.75&z=5&lang=ru_RU&pt=37.62%2C55.75%2Cpmwtm1~30.33%2C59.93%2Cpmwtm2''"

text \<open>
  The one-point input of the file-or-string example, a file system whose only regular
  file, \<^verbatim>\<open>points.json\<close>, holds that text, and an object that lacks two of the required
  keys.
\<close>

definition single_json :: string where
  \<open>single_json = ''[{"id":1,"latitude":10.0,"longitude":20.0}]''\<close>

definition single_point :: "pyfloat point" where
  "single_point = \<lparr>point_id = 1, latitude = Dec 10 0, longitude = Dec 20 0, title = PNone\<rparr>"

definition one_file :: filesystem where
  "one_file path = (if path = ''points.json'' then Some (Inr single_json) else None)"

definition no_files :: filesystem where
  "no_files path = None"

definition only_id :: "pyfloat pyval" where
  "only_id = PDict [(''id'', PInt 3)]"

text \<open>
  Objects whose latitude is no number, whose id is a float, and whose id is a decimal
  written as a string.
\<close>

definition bad_latitude :: "(string \<times> pyfloat pyval) list" where
  "bad_latitude = [(''id'', PInt 4), (''latitude'', PStr ''north''), (''longitude'', PFloat (Dec 20 0))]"

definition float_id :: "(string \<times> pyfloat pyval) list" where
  "float_id = [(''id'', PFloat (Dec 19 1)), (''latitude'', PFloat (Dec 10 0)), (''longitude'', PFloat (Dec 20 0))]"

definition string_id :: "(string \<times> pyfloat pyval) list" where
  "string_id = [(''id'', PStr ''1.9''), (''latitude'', PFloat (Dec 10 0)), (''longitude'', PFloat (Dec 20 0))]"

section \<open>Loading: the loop of \<^verbatim>\<open>_parse_points\<close>\<close>

lemma parse_loop_ok:
  "list_all2 (\<lambda>x p. load_point L x = Inr p) xs ps \<Longrightarrow> parse_loop L acc xs = (None, acc @ ps)"
proof (induction xs arbitrary: acc ps)
  case Nil
  then show ?case by simp
next
  case (Cons x xs)
  then obtain p ps' where ps: "ps = p # ps'" and p: "load_point L x = Inr p"
    and rest: "list_all2 (\<lambda>x p. load_point L x = Inr p) xs ps'"
    by (auto simp: list_all2_Cons1)
  from Cons.IH [OF rest, of "acc @ [p]"] p ps show ?case by simp
qed

lemma parse_loop_fail:
  "list_all2 (\<lambda>x p. load_point L x = Inr p) xs ps \<Longrightarrow> load_point L bad = Inl e \<Longrightarrow>
   parse_loop L acc (xs @ bad # rest) = (Some e, acc @ ps)"
proof (induction xs arbitrary: acc ps)
  case Nil
  then show ?case by simp
next
  case (Cons x xs)
  then obtain p ps' where ps: "ps = p # ps'" and p: "load_point L x = Inr p"
    and rest: "list_all2 (\<lambda>x p. load_point L x = Inr p) xs ps'"
    by (auto simp: list_all2_Cons1)
  from Cons.IH [OF rest Cons.prems(2), of "acc @ [p]"] p ps show ?case by simp
qed

lemma all_keys_dict:
  "all_keys_in ks (PDict d) = Inr (set ks \<subseteq> fst ` set d)"
  by (induction ks) (auto split: sum.splits bool.splits)

lemma required_keys_present:
  assumes "map_of d ''id'' = Some vi" "map_of d ''latitude'' = Some vlat" "map_of d ''longitude'' = Some vlon"
  shows "all_keys_in required_keys (PDict d) = Inr True"
proof -
  have "{''id'', ''latitude'', ''longitude''} \<subseteq> fst ` set d"
    using assms by (auto dest!: map_of_SomeD intro: rev_image_eqI)
  then show ?thesis by (simp add: all_keys_dict required_keys_def)
qed

lemma load_point_dict_ok:
  assumes "map_of d ''id'' = Some vi" "py_int L vi = Inr i"
    and "map_of d ''latitude'' = Some vlat" "py_float L vlat = Inr lat"
    and "map_of d ''longitude'' = Some vlon" "py_float L vlon = Inr lon"
  shows "load_point L (PDict d) =
     Inr \<lparr>point_id = i, latitude = lat, longitude = lon,
          title = (case map_of d ''title'' of None \<Rightarrow> PNone | Some t \<Rightarrow> t)\<rparr>"
  using assms required_keys_present [OF assms(1,3,5)]
  by (simp add: load_point_def make_point_def split: option.splits)

lemma load_point_missing:
  assumes "k \<in> set required_keys" "map_of d k = None"
  shows "load_point L (PDict d) = Inl (ValueError MissingKeys)"
proof -
  have "k \<notin> fst ` set d" using assms(2) by (simp add: map_of_eq_None_iff)
  then have "\<not> set required_keys \<subseteq> fst ` set d" using assms(1) by auto
  then show ?thesis by (simp add: load_point_def all_keys_dict)
qed

lemma load_point_conversion_fails:
  assumes "map_of d ''id'' = Some vi" "map_of d ''latitude'' = Some vlat" "map_of d ''longitude'' = Some vlon"
    and "isl (py_int L vi) \<or> isl (py_float L vlat) \<or> isl (py_float L vlon)"
  shows "load_point L (PDict d) =
     Inl (if isl (py_int L vi) then projl (py_int L vi)
          else if isl (py_float L vlat) then projl (py_float L vlat)
          else projl (py_float L vlon))"
  using assms required_keys_present [OF assms(1,2,3)]
  by (auto simp: load_point_def make_point_def split: sum.splits)

text \<open>
  The elements that load are the well-formed ones: the objects that have the three
  required keys with values that \<^verbatim>\<open>int\<close> and \<^verbatim>\<open>float\<close> convert. The point then holds the
  converted values, and the title of the object or \<^verbatim>\<open>None\<close>.
\<close>

lemma make_point_not_dict:
  "\<forall>d. x \<noteq> PDict d \<Longrightarrow> make_point L x = Inl TypeError"
  by (cases x) (auto simp: make_point_def)

lemma load_point_only_dicts:
  assumes "load_point L x = Inr p"
  shows "\<exists>d. x = PDict d"
proof (rule ccontr)
  assume "\<nexists>d. x = PDict d"
  then have nd: "\<forall>d. x \<noteq> PDict d" by blast
  from make_point_not_dict [OF nd, of L] assms show False
    by (simp add: load_point_def split: sum.splits bool.splits)
qed

lemma load_point_dict_iff:
  "load_point L (PDict d) = Inr p \<longleftrightarrow>
     (\<exists>vi vlat vlon.
        map_of d ''id'' = Some vi \<and> py_int L vi = Inr (point_id p)
      \<and> map_of d ''latitude'' = Some vlat \<and> py_float L vlat = Inr (latitude p)
      \<and> map_of d ''longitude'' = Some vlon \<and> py_float L vlon = Inr (longitude p)
      \<and> title p = (case map_of d ''title'' of None \<Rightarrow> PNone | Some t \<Rightarrow> t))"
    (is "?lhs \<longleftrightarrow> ?rhs")
proof
  assume ?rhs
  then obtain vi vlat vlon where h:
    "map_of d ''id'' = Some vi" "py_int L vi = Inr (point_id p)"
    "map_of d ''latitude'' = Some vlat" "py_float L vlat = Inr (latitude p)"
    "map_of d ''longitude'' = Some vlon" "py_float L vlon = Inr (longitude p)"
    and t: "title p = (case map_of d ''title'' of None \<Rightarrow> PNone | Some t \<Rightarrow> t)"
    by blast
  from load_point_dict_ok [OF h] t show ?lhs by simp
next
  assume l: ?lhs
  show ?rhs
  proof (cases "set required_keys \<subseteq> fst ` set d")
    case False
    with l show ?thesis by (simp add: load_point_def all_keys_dict)
  next
    case True
    then have "map_of d ''id'' \<noteq> None" "map_of d ''latitude'' \<noteq> None"
      "map_of d ''longitude'' \<noteq> None"
      by (simp_all add: required_keys_def map_of_eq_None_iff)
    then obtain vi vlat vlon where m: "map_of d ''id'' = Some vi"
      "map_of d ''latitude'' = Some vlat" "map_of d ''longitude'' = Some vlon"
      by auto
    from True l have "make_point L (PDict d) = Inr p"
      by (simp add: load_point_def all_keys_dict)
    with m show ?thesis
      by (auto simp: make_point_def split: sum.splits option.splits)
  qed
qed

section \<open>The URL\<close>

lemma quote_plus_keys:
  "quote_plus ''ll'' = ''ll''" "quote_plus ''z'' = ''z''"
  "quote_plus ''lang'' = ''lang''" "quote_plus ''pt'' = ''pt''"
  by (simp_all add: quote_plus_def quote_def always_safe_def)

lemma generate_map_url_Cons:
  "points g = p # ps \<Longrightarrow> generate_map_url L g =
     Inr (''https://maps.yandex.ru/?ll='' @ quote_plus (float_repr L (longitude p) @ '','' @ float_repr L (latitude p))
          @ ''&z='' @ quote_plus (py_str_int (zoom g))
          @ ''&lang='' @ quote_plus (lang g)
          @ ''&pt='' @ quote_plus (join ''~'' (map (marker_token L) (p # ps))))"
  by (simp add: generate_map_url_def url_params_def urlencode_def base_url_def center_def quote_plus_keys)

lemma marker_tokens_cong:
  "list_all2 (\<lambda>p q. point_id p = point_id q \<and> latitude p = latitude q \<and> longitude p = longitude q) ps qs
   \<Longrightarrow> map (marker_token L) ps = map (marker_token L) qs"
  by (induction rule: list_all2_induct) (simp_all add: marker_token_def)

section \<open>The command line\<close>

text \<open>With \<^verbatim>\<open>--stdin\<close>, a stream whose content names a regular file is read from that file.\<close>

lemma stdin_goes_through_isfile:
  assumes "use_stdin a" and "fs stdin = Some (Inr text)"
  shows "main L fs stdin a =
     (case json_loads L text of
        Inl e \<Rightarrow> Inl e
      | Inr data \<Rightarrow>
          (case parse_points L default_generator data of
             (Some e, g) \<Rightarrow> Inl e
           | (None, g) \<Rightarrow> display_map L g))"
  using assms by (simp add: main_def load_points_def split: sum.splits)

section \<open>The reference runtime on the example inputs\<close>

lemma example_json_loads: "json_loads refpy example_json = Inr (PList [moscow, petersburg])"
  by code_simp

lemma single_json_loads:
  "json_loads refpy single_json =
     Inr (PList [PDict [(''id'', PInt 1), (''latitude'', PFloat (Dec 10 0)), (''longitude'', PFloat (Dec 20 0))]])"
  by code_simp

lemma load_moscow: "load_point refpy moscow = Inr moscow_point"
  by code_simp

lemma load_petersburg: "load_point refpy petersburg = Inr petersburg_point"
  by code_simp

lemma example_reprs:
  "float_repr refpy (Dec 5575 2) = ''55.75''" "float_repr refpy (Dec 3762 2) = ''37.62''"
  "float_repr refpy (Dec 5993 2) = ''59.93''" "float_repr refpy (Dec 3033 2) = ''30.33''"
  by code_simp+

lemma small_ints: "py_str_int 1 = ''1''" "py_str_int 2 = ''2''" "py_str_int 5 = ''5''"
  by (simp_all add: py_str_int_def)

lemma load_only_id: "load_point refpy only_id = Inl (ValueError MissingKeys)"
  by code_simp

lemma float_north: "float_of_str refpy ''north'' = Inl (ValueError Builtin)"
  by code_simp

lemma py_int_1_9: "py_int refpy (PFloat (Dec 19 1)) = Inr 1"
  by code_simp

lemma quote_plus_examples:
  "quote_plus ''37.62,55.75'' = ''37.62%2C55.75''"
  "quote_plus ''5'' = ''5''"
  "quote_plus ''ru_RU'' = ''ru_RU''"
  "quote_plus ''37.62,55.75,pmwtm1~30.33,59.93,pmwtm2'' = ''37.62%2C55.75%2Cpmwtm1~30.33%2C59.93%2Cpmwtm2''"
  by code_simp+

section \<open>The claims\<close>

text \<open>
  C1. For every list of well-formed points (every element loads), \<^verbatim>\<open>_parse_points\<close>
  succeeds and keeps one point per element, in the order of the list; when the list is
  not empty, the URL that \<^verbatim>\<open>generate_map_url\<close> then returns ends with the \<^verbatim>\<open>pt\<close> parameter,
  whose value is the tokens of the loaded points in that order, joined with \<^verbatim>\<open>~\<close>, the
  token of a point being its longitude, a comma, its latitude, \<^verbatim>\<open>,pmwtm\<close> and its id.
\<close>

theorem pt_one_token_per_point:
  assumes "list_all2 (\<lambda>x p. load_point L x = Inr p) xs ps" and "xs \<noteq> []"
  shows "parse_points L g (PList xs) = (None, g\<lparr>points := ps\<rparr>)
     \<and> length ps = length xs
     \<and> (\<forall>p0. map_of (url_params L (g\<lparr>points := ps\<rparr>) p0) ''pt'' =
         Some (QStr (join ''~'' (map (\<lambda>p. float_repr L (longitude p) @ '','' @ float_repr L (latitude p)
                                        @ '',pmwtm'' @ py_str_int (point_id p)) ps))))
     \<and> (\<exists>front. generate_map_url L (g\<lparr>points := ps\<rparr>) =
           Inr (front @ ''&pt='' @ quote_plus (join ''~'' (map (\<lambda>p. float_repr L (longitude p) @ '','' @ float_repr L (latitude p)
                                        @ '',pmwtm'' @ py_str_int (point_id p)) ps))))"
proof -
  from assms(1) have len: "length ps = length xs" by (simp add: list_all2_lengthD)
  with assms(2) obtain p ps' where ps: "ps = p # ps'" by (cases ps) auto
  have tok: "marker_token L = (\<lambda>p. float_repr L (longitude p) @ '','' @ float_repr L (latitude p)
                                        @ '',pmwtm'' @ py_str_int (point_id p))"
    by (rule ext) (simp add: marker_token_def)
  have url: "\<exists>front. generate_map_url L (g\<lparr>points := ps\<rparr>) =
       Inr (front @ ''&pt='' @ quote_plus (join ''~'' (map (marker_token L) ps)))"
  proof -
    have "points (g\<lparr>points := ps\<rparr>) = p # ps'" using ps by simp
    from generate_map_url_Cons [OF this, of L] ps
    have "generate_map_url L (g\<lparr>points := ps\<rparr>) =
       Inr ((''https://maps.yandex.ru/?ll='' @ quote_plus (float_repr L (longitude p) @ '','' @ float_repr L (latitude p))
             @ ''&z='' @ quote_plus (py_str_int (zoom g)) @ ''&lang='' @ quote_plus (lang g))
            @ ''&pt='' @ quote_plus (join ''~'' (map (marker_token L) ps)))"
      by simp
    then show ?thesis by blast
  qed
  show ?thesis
    using parse_loop_ok [OF assms(1), of "[]"] len ps url
    by (simp add: url_params_def tok)
qed

theorem pt_one_token_per_point_witness:
  "list_all2 (\<lambda>x p. load_point refpy x = Inr p) [moscow, petersburg] [moscow_point, petersburg_point]
   \<and> [moscow, petersburg] \<noteq> []
   \<and> parse_points refpy default_generator (PList [moscow, petersburg]) =
       (None, default_generator\<lparr>points := [moscow_point, petersburg_point]\<rparr>)
   \<and> map_of (url_params refpy (default_generator\<lparr>points := [moscow_point, petersburg_point]\<rparr>) moscow_point) ''pt'' =
       Some (QStr ''37.62,55.75,pmwtm1~30.33,59.93,pmwtm2'')"
proof -
  have h: "list_all2 (\<lambda>x p. load_point refpy x = Inr p) [moscow, petersburg] [moscow_point, petersburg_point]"
    by (simp add: load_moscow load_petersburg)
  from pt_one_token_per_point [OF h, of default_generator] h show ?thesis
    by (simp add: example_reprs small_ints moscow_point_def petersburg_point_def)
qed

text \<open>
  C4. For every non-empty collection, the \<^verbatim>\<open>ll\<close> parameter is the longitude of the first
  point, a comma and its latitude: it is the \<^verbatim>\<open>ll\<close> entry of the parameters, and the URL
  starts with its percent-encoding.
\<close>

theorem ll_is_first_point:
  assumes "points g = p # ps"
  shows "map_of (url_params L g p) ''ll'' = Some (QStr (float_repr L (longitude p) @ '','' @ float_repr L (latitude p)))
     \<and> (\<exists>rest. generate_map_url L g =
           Inr (''https://maps.yandex.ru/?ll=''
                @ quote_plus (float_repr L (longitude p) @ '','' @ float_repr L (latitude p))
                @ ''&z='' @ rest))"
  using generate_map_url_Cons [OF assms, of L]
  by (simp add: url_params_def center_def)

theorem ll_is_first_point_witness:
  "points (default_generator\<lparr>points := [petersburg_point, moscow_point]\<rparr>) = [petersburg_point, moscow_point]
   \<and> map_of (url_params refpy (default_generator\<lparr>points := [petersburg_point, moscow_point]\<rparr>) petersburg_point) ''ll'' =
       Some (QStr ''30.33,59.93'')"
  using ll_is_first_point [of "default_generator\<lparr>points := [petersburg_point, moscow_point]\<rparr>"
      petersburg_point "[moscow_point]" refpy]
  by (simp add: example_reprs petersburg_point_def)

text \<open>
  C5. With an empty collection \<^verbatim>\<open>generate_map_url\<close> raises the \<^verbatim>\<open>ValueError\<close> of line 64
  and returns no URL; so does \<^verbatim>\<open>display_map\<close>, which opens none.
\<close>

theorem no_points_no_url:
  "points g = [] \<Longrightarrow>
     generate_map_url L g = Inl (ValueError NoPoints) \<and> display_map L g = Inl (ValueError NoPoints)"
  by (simp add: generate_map_url_def display_map_def)

theorem no_points_no_url_witness:
  "points (default_generator :: pyfloat generator) = []
   \<and> generate_map_url refpy default_generator = Inl (ValueError NoPoints)
   \<and> display_map refpy default_generator = Inl (ValueError NoPoints)"
  using no_points_no_url [of "default_generator :: pyfloat generator" refpy]
  by (simp add: default_generator_def new_generator_def)

text \<open>
  C9. The title is stored on the point and never read again: two generators with the
  same zoom and language whose points agree, one by one, on id, latitude and longitude
  give the same result, whatever the titles are.
\<close>

theorem title_not_in_url:
  assumes "zoom g = zoom g'" and "lang g = lang g'"
    and "list_all2 (\<lambda>p q. point_id p = point_id q \<and> latitude p = latitude q \<and> longitude p = longitude q)
           (points g) (points g')"
  shows "generate_map_url L g = generate_map_url L g'"
proof (cases "points g")
  case Nil
  with assms(3) have "points g' = []" by simp
  with Nil show ?thesis by (simp add: generate_map_url_def)
next
  case (Cons p ps)
  with assms(3) obtain q qs where q: "points g' = q # qs"
    and pq: "latitude p = latitude q" "longitude p = longitude q"
    by (auto simp: list_all2_Cons1)
  from marker_tokens_cong [OF assms(3), of L] Cons q pq assms(1,2)
  show ?thesis by (simp add: generate_map_url_def url_params_def center_def)
qed

theorem title_not_in_url_witness:
  "zoom (default_generator\<lparr>points := [moscow_point]\<rparr>) = zoom (default_generator\<lparr>points := [moscow_point\<lparr>title := PNone\<rparr>]\<rparr>)
   \<and> lang (default_generator\<lparr>points := [moscow_point]\<rparr>) = lang (default_generator\<lparr>points := [moscow_point\<lparr>title := PNone\<rparr>]\<rparr>)
   \<and> list_all2 (\<lambda>p q. point_id p = point_id q \<and> latitude p = latitude q \<and> longitude p = longitude q)
        (points (default_generator\<lparr>points := [moscow_point]\<rparr>))
        (points (default_generator\<lparr>points := [moscow_point\<lparr>title := PNone\<rparr>]\<rparr>))
   \<and> title moscow_point \<noteq> title (moscow_point\<lparr>title := PNone\<rparr>)
   \<and> generate_map_url refpy (default_generator\<lparr>points := [moscow_point]\<rparr>) =
       generate_map_url refpy (default_generator\<lparr>points := [moscow_point\<lparr>title := PNone\<rparr>]\<rparr>)"
  using title_not_in_url [of "default_generator\<lparr>points := [moscow_point]\<rparr>"
      "default_generator\<lparr>points := [moscow_point\<lparr>title := PNone\<rparr>]\<rparr>" refpy]
  by (simp add: moscow_point_def)

text \<open>
  C2, as stated, fails: the loop appends to \<^verbatim>\<open>self._points\<close> itself, so the points of the
  elements before the defective one stay in the collection when the exception leaves
  \<^verbatim>\<open>_parse_points\<close>. Here the first element loads and the second lacks two keys.
\<close>

theorem missing_key_keeps_earlier_points:
  "parse_points refpy default_generator (PList [moscow, only_id]) =
     (Some (ValueError MissingKeys), default_generator\<lparr>points := [moscow_point]\<rparr>)
   \<and> points (snd (parse_points refpy default_generator (PList [moscow, only_id]))) \<noteq> []"
  by (simp add: load_moscow load_only_id)

text \<open>
  C2, amended. When the first element that does not load is an object that lacks one
  of the required keys, \<^verbatim>\<open>_parse_points\<close> raises the \<^verbatim>\<open>ValueError\<close> of line 35, and the
  collection it leaves holds the points of the elements before that one and nothing of
  what the generator held before the call.
\<close>

theorem missing_key_fails_at_first_defect:
  assumes "list_all2 (\<lambda>x p. load_point L x = Inr p) good ps"
    and "k \<in> set required_keys" and "map_of d k = None"
  shows "parse_points L g (PList (good @ PDict d # rest)) = (Some (ValueError MissingKeys), g\<lparr>points := ps\<rparr>)"
  using parse_loop_fail [OF assms(1) load_point_missing [OF assms(2,3)], of "[]" rest]
  by simp

theorem missing_key_fails_at_first_defect_witness:
  "list_all2 (\<lambda>x p. load_point refpy x = Inr p) [moscow] [moscow_point]
   \<and> ''latitude'' \<in> set required_keys
   \<and> map_of [(''id'', PInt 3 :: pyfloat pyval)] ''latitude'' = None
   \<and> parse_points refpy default_generator (PList [moscow, PDict [(''id'', PInt 3)], petersburg]) =
       (Some (ValueError MissingKeys), default_generator\<lparr>points := [moscow_point]\<rparr>)"
proof -
  have h: "list_all2 (\<lambda>x p. load_point refpy x = Inr p) [moscow] [moscow_point]"
    by (simp add: load_moscow)
  have k: "''latitude'' \<in> set required_keys" by (simp add: required_keys_def)
  have m: "map_of [(''id'', PInt 3 :: pyfloat pyval)] ''latitude'' = None" by simp
  from missing_key_fails_at_first_defect [OF h k m, of default_generator "[petersburg]"] h k m
  show ?thesis by simp
qed

text \<open>
  C8, as stated, fails: the elements are examined in order, so a list whose second
  element lacks a key and whose third has a latitude that is no number fails with the
  \<^verbatim>\<open>ValueError\<close> of line 35, not with the error of the conversion, and the point of the
  first element stays in the collection.
\<close>

theorem validation_error_before_conversion:
  "parse_points refpy default_generator (PList [moscow, only_id, PDict bad_latitude]) =
     (Some (ValueError MissingKeys), default_generator\<lparr>points := [moscow_point]\<rparr>)
   \<and> py_float refpy (PStr ''north'') = Inl (ValueError Builtin)"
  by (simp add: load_moscow load_only_id float_north)

text \<open>
  C8, amended. When the first element that does not load is an object with the three
  required keys of which a value does not convert, \<^verbatim>\<open>_parse_points\<close> raises the exception
  of the first conversion that fails, in the order id, latitude, longitude, and the collection it
  leaves holds the points of the elements before that one.
\<close>

theorem conversion_fails_at_first_defect:
  assumes "list_all2 (\<lambda>x p. load_point L x = Inr p) good ps"
    and "map_of d ''id'' = Some vi" "map_of d ''latitude'' = Some vlat" "map_of d ''longitude'' = Some vlon"
    and "isl (py_int L vi) \<or> isl (py_float L vlat) \<or> isl (py_float L vlon)"
  shows "parse_points L g (PList (good @ PDict d # rest)) =
     (Some (if isl (py_int L vi) then projl (py_int L vi)
            else if isl (py_float L vlat) then projl (py_float L vlat)
            else projl (py_float L vlon)),
      g\<lparr>points := ps\<rparr>)"
  using parse_loop_fail [OF assms(1) load_point_conversion_fails [OF assms(2-5)], of "[]" rest]
  by simp

theorem conversion_fails_at_first_defect_witness:
  "list_all2 (\<lambda>x p. load_point refpy x = Inr p) [moscow] [moscow_point]
   \<and> map_of bad_latitude ''id'' = Some (PInt 4)
   \<and> map_of bad_latitude ''latitude'' = Some (PStr ''north'')
   \<and> map_of bad_latitude ''longitude'' = Some (PFloat (Dec 20 0))
   \<and> isl (py_float refpy (PStr ''north''))
   \<and> parse_points refpy default_generator (PList [moscow, PDict bad_latitude, petersburg]) =
       (Some (ValueError Builtin), default_generator\<lparr>points := [moscow_point]\<rparr>)"
proof -
  have h: "list_all2 (\<lambda>x p. load_point refpy x = Inr p) [moscow] [moscow_point]"
    by (simp add: load_moscow)
  have m: "map_of bad_latitude ''id'' = Some (PInt 4)"
    "map_of bad_latitude ''latitude'' = Some (PStr ''north'')"
    "map_of bad_latitude ''longitude'' = Some (PFloat (Dec 20 0))"
    by (simp_all add: bad_latitude_def)
  have f: "isl (py_int refpy (PInt 4)) \<or> isl (py_float refpy (PStr ''north''))
      \<or> isl (py_float refpy (PFloat (Dec 20 0)))"
    by (simp add: float_north)
  from conversion_fails_at_first_defect [OF h m f, of default_generator "[petersburg]"] h m
  show ?thesis by (simp add: float_north)
qed

text \<open>
  C10, as stated, fails: \<^verbatim>\<open>int\<close> rejects a string that holds a decimal, so an id
  \<^verbatim>\<open>"1.9"\<close> fails the load with the \<^verbatim>\<open>ValueError\<close> of \<^verbatim>\<open>int\<close>.
\<close>

theorem decimal_string_id_rejected:
  "parse_points refpy default_generator (PList [PDict string_id]) =
     (Some (ValueError Builtin), default_generator\<lparr>points := []\<rparr>)"
  by code_simp

text \<open>
  C10, amended. The id may be any value that \<^verbatim>\<open>int\<close> accepts: in a list whose other
  elements load, an object whose id \<^verbatim>\<open>int\<close> converts to \<open>n\<close>, and whose latitude and
  longitude convert, is loaded with id \<open>n\<close>. In the reference runtime the float 1.9
  gives the id 1.
\<close>

theorem id_is_coerced_by_int:
  assumes "list_all2 (\<lambda>x p. load_point L x = Inr p) before ps"
    and "list_all2 (\<lambda>x p. load_point L x = Inr p) after qs"
    and "map_of d ''id'' = Some v" and "py_int L v = Inr n"
    and "map_of d ''latitude'' = Some vlat" and "py_float L vlat = Inr lat"
    and "map_of d ''longitude'' = Some vlon" and "py_float L vlon = Inr lon"
  shows "parse_points L g (PList (before @ PDict d # after)) =
     (None, g\<lparr>points := ps @ \<lparr>point_id = n, latitude = lat, longitude = lon,
                               title = (case map_of d ''title'' of None \<Rightarrow> PNone | Some t \<Rightarrow> t)\<rparr> # qs\<rparr>)"
proof -
  let ?pt = "\<lparr>point_id = n, latitude = lat, longitude = lon,
              title = (case map_of d ''title'' of None \<Rightarrow> PNone | Some t \<Rightarrow> t)\<rparr>"
  have "list_all2 (\<lambda>x p. load_point L x = Inr p) (before @ PDict d # after) (ps @ ?pt # qs)"
    using assms(1,2) load_point_dict_ok [OF assms(3-8)]
    by (simp add: list_all2_appendI)
  from parse_loop_ok [OF this, of "[]"] show ?thesis by simp
qed

theorem id_is_coerced_by_int_witness:
  "list_all2 (\<lambda>x p. load_point refpy x = Inr p) [moscow] [moscow_point]
   \<and> list_all2 (\<lambda>x p. load_point refpy x = Inr p) [petersburg] [petersburg_point]
   \<and> map_of float_id ''id'' = Some (PFloat (Dec 19 1))
   \<and> py_int refpy (PFloat (Dec 19 1)) = Inr 1
   \<and> map_of float_id ''latitude'' = Some (PFloat (Dec 10 0))
   \<and> map_of float_id ''longitude'' = Some (PFloat (Dec 20 0))
   \<and> parse_points refpy default_generator (PList [moscow, PDict float_id, petersburg]) =
       (None, default_generator\<lparr>points := [moscow_point, single_point, petersburg_point]\<rparr>)"
proof -
  have h1: "list_all2 (\<lambda>x p. load_point refpy x = Inr p) [moscow] [moscow_point]"
    and h2: "list_all2 (\<lambda>x p. load_point refpy x = Inr p) [petersburg] [petersburg_point]"
    by (simp_all add: load_moscow load_petersburg)
  have m: "map_of float_id ''id'' = Some (PFloat (Dec 19 1))"
    "map_of float_id ''latitude'' = Some (PFloat (Dec 10 0))"
    "map_of float_id ''longitude'' = Some (PFloat (Dec 20 0))"
    "map_of float_id ''title'' = None"
    by (simp_all add: float_id_def)
  have f: "py_float refpy (PFloat (Dec 10 0)) = Inr (Dec 10 0)"
    "py_float refpy (PFloat (Dec 20 0)) = Inr (Dec 20 0)" by simp_all
  from id_is_coerced_by_int [OF h1 h2 m(1) py_int_1_9 m(2) f(1) m(3) f(2), of default_generator]
    h1 h2 m(1-3) py_int_1_9
  show ?thesis by (simp only: m(4) single_point_def append.simps option.simps simp_thms)
qed

text \<open>
  C6. The end-to-end example. Whenever the runtime parses the example text to the two
  objects it denotes and prints the four floats as they are written there, and no file
  bears the text as its name, loading it into the default generator (zoom 5, language
  \<^verbatim>\<open>ru_RU\<close>) gives the parameters \<^verbatim>\<open>ll = 37.62,55.75\<close>, \<^verbatim>\<open>z = 5\<close>, \<^verbatim>\<open>lang = ru_RU\<close> and
  \<^verbatim>\<open>pt = 37.62,55.75,pmwtm1~30.33,59.93,pmwtm2\<close>, and \<^verbatim>\<open>main\<close> opens the URL that carries
  them percent-encoded.
\<close>

theorem end_to_end_example:
  assumes "json_loads L example_json =
      Inr (PList [PDict [(''id'', PInt 1), (''latitude'', PFloat a1), (''longitude'', PFloat o1), (''title'', PStr ''A'')],
                  PDict [(''id'', PInt 2), (''latitude'', PFloat a2), (''longitude'', PFloat o2)]])"
    and "float_repr L a1 = ''55.75''" and "float_repr L o1 = ''37.62''"
    and "float_repr L a2 = ''59.93''" and "float_repr L o2 = ''30.33''"
    and "fs example_json = None"
  shows "load_points L fs default_generator example_json =
       (None, default_generator\<lparr>points :=
          [\<lparr>point_id = 1, latitude = a1, longitude = o1, title = PStr ''A''\<rparr>,
           \<lparr>point_id = 2, latitude = a2, longitude = o2, title = PNone\<rparr>]\<rparr>)
     \<and> url_params L (default_generator\<lparr>points :=
          [\<lparr>point_id = 1, latitude = a1, longitude = o1, title = PStr ''A''\<rparr>,
           \<lparr>point_id = 2, latitude = a2, longitude = o2, title = PNone\<rparr>]\<rparr>)
          \<lparr>point_id = 1, latitude = a1, longitude = o1, title = PStr ''A''\<rparr> =
       [(''ll'', QStr ''37.62,55.75''), (''z'', QInt 5), (''lang'', QStr ''ru_RU''),
        (''pt'', QStr ''37.62,55.75,pmwtm1~30.33,59.93,pmwtm2'')]
     \<and> main L fs stdin \<lparr>json_input = Some example_json, use_stdin = False\<rparr> = Inr example_url"
proof -
  let ?p1 = "\<lparr>point_id = 1, latitude = a1, longitude = o1, title = PStr ''A''\<rparr>"
  let ?p2 = "\<lparr>point_id = 2, latitude = a2, longitude = o2, title = PNone\<rparr>"
  let ?g = "default_generator\<lparr>points := [?p1, ?p2]\<rparr>"
  have l1: "load_point L (PDict [(''id'', PInt 1), (''latitude'', PFloat a1), (''longitude'', PFloat o1), (''title'', PStr ''A'')]) = Inr ?p1"
    by (simp add: load_point_def make_point_def required_keys_def)
  have l2: "load_point L (PDict [(''id'', PInt 2), (''latitude'', PFloat a2), (''longitude'', PFloat o2)]) = Inr ?p2"
    by (simp add: load_point_def make_point_def required_keys_def)
  have load: "load_points L fs default_generator example_json = (None, ?g)"
    using assms(1,6) l1 l2 by (simp add: load_points_def)
  have params: "url_params L ?g ?p1 =
       [(''ll'', QStr ''37.62,55.75''), (''z'', QInt 5), (''lang'', QStr ''ru_RU''),
        (''pt'', QStr ''37.62,55.75,pmwtm1~30.33,59.93,pmwtm2'')]"
    using assms(2-5)
    by (simp add: url_params_def center_def marker_token_def small_ints default_generator_def new_generator_def)
  have url: "generate_map_url L ?g = Inr example_url"
    using params
    by (simp add: generate_map_url_def urlencode_def quote_plus_keys quote_plus_examples small_ints
        base_url_def example_url_def)
  have nonempty: "example_json \<noteq> []" by (simp add: example_json_def)
  have "main L fs stdin \<lparr>json_input = Some example_json, use_stdin = False\<rparr> = Inr example_url"
    using load url nonempty by (simp add: main_def display_map_def)
  with load params show ?thesis by simp
qed

theorem end_to_end_example_witness:
  "json_loads refpy example_json =
      Inr (PList [PDict [(''id'', PInt 1), (''latitude'', PFloat (Dec 5575 2)), (''longitude'', PFloat (Dec 3762 2)), (''title'', PStr ''A'')],
                  PDict [(''id'', PInt 2), (''latitude'', PFloat (Dec 5993 2)), (''longitude'', PFloat (Dec 3033 2))]])
   \<and> float_repr refpy (Dec 5575 2) = ''55.75'' \<and> float_repr refpy (Dec 3762 2) = ''37.62''
   \<and> float_repr refpy (Dec 5993 2) = ''59.93'' \<and> float_repr refpy (Dec 3033 2) = ''30.33''
   \<and> no_files example_json = None
   \<and> main refpy no_files [] \<lparr>json_input = Some example_json, use_stdin = False\<rparr> =
       Inr ''https://maps.yandex.ru/?ll=37.62%2C55.75&z=5&lang=ru_RU&pt=37.62%2C55.75%2Cpmwtm1~30.33%2C59.93%2Cpmwtm2''"
proof -
  have j: "json_loads refpy example_json =
      Inr (PList [PDict [(''id'', PInt 1), (''latitude'', PFloat (Dec 5575 2)), (''longitude'', PFloat (Dec 3762 2)), (''title'', PStr ''A'')],
                  PDict [(''id'', PInt 2), (''latitude'', PFloat (Dec 5993 2)), (''longitude'', PFloat (Dec 3033 2))]])"
    using example_json_loads by (simp add: moscow_def petersburg_def)
  have n: "no_files example_json = None" by (simp add: no_files_def)
  from end_to_end_example [where fs = no_files and stdin = "[]", OF j example_reprs(1,2,3,4) n]
    j n example_reprs
  show ?thesis by (simp add: example_url_def)
qed

text \<open>
  C7. When the string names a regular file that reads as \<open>text\<close>, \<^verbatim>\<open>load_points\<close> parses
  \<open>text\<close>; when it names no regular file, it parses the string itself. So a path to a
  file that holds the one-point text, and that text itself when no file bears it as its
  name, load the same single point, with id 1.
\<close>

theorem file_or_string:
  assumes "fs path = Some (Inr text)" and "fs s = None"
  shows "load_points L fs g path =
       (case json_loads L text of Inl e \<Rightarrow> (Some e, g) | Inr data \<Rightarrow> parse_points L g data)
     \<and> load_points L fs g s =
       (case json_loads L s of Inl e \<Rightarrow> (Some e, g) | Inr data \<Rightarrow> parse_points L g data)
     \<and> (text = single_json \<and> s = single_json
        \<and> json_loads L single_json =
            Inr (PList [PDict [(''id'', PInt 1), (''latitude'', PFloat lat), (''longitude'', PFloat lon)]])
        \<longrightarrow> load_points L fs g path =
              (None, g\<lparr>points := [\<lparr>point_id = 1, latitude = lat, longitude = lon, title = PNone\<rparr>]\<rparr>)
          \<and> load_points L fs g s =
              (None, g\<lparr>points := [\<lparr>point_id = 1, latitude = lat, longitude = lon, title = PNone\<rparr>]\<rparr>))"
proof -
  have l: "load_point L (PDict [(''id'', PInt 1), (''latitude'', PFloat lat), (''longitude'', PFloat lon)]) =
      Inr \<lparr>point_id = 1, latitude = lat, longitude = lon, title = PNone\<rparr>"
    by (simp add: load_point_def make_point_def required_keys_def)
  show ?thesis using assms l by (auto simp: load_points_def)
qed

theorem file_or_string_witness:
  "one_file ''points.json'' = Some (Inr single_json) \<and> one_file single_json = None
   \<and> json_loads refpy single_json =
       Inr (PList [PDict [(''id'', PInt 1), (''latitude'', PFloat (Dec 10 0)), (''longitude'', PFloat (Dec 20 0))]])
   \<and> load_points refpy one_file default_generator ''points.json'' = (None, default_generator\<lparr>points := [single_point]\<rparr>)
   \<and> load_points refpy one_file default_generator single_json = (None, default_generator\<lparr>points := [single_point]\<rparr>)"
proof -
  have f: "one_file ''points.json'' = Some (Inr single_json)" by (simp add: one_file_def)
  have n: "one_file single_json = None" by (simp add: one_file_def single_json_def)
  from file_or_string [where L = refpy and g = default_generator and lat = "Dec 10 0" and lon = "Dec 20 0",
      OF f n, THEN conjunct2, THEN conjunct2]
    f n single_json_loads
  show ?thesis by (simp add: single_point_def)
qed

text \<open>
  C3. With \<^verbatim>\<open>--stdin\<close>, \<^verbatim>\<open>main\<close> hands what it read to \<^verbatim>\<open>load_points\<close>, which asks
  \<^verbatim>\<open>os.path.isfile\<close> first: a stream whose content is \<^verbatim>\<open>points.json\<close>, the name of a file,
  is not parsed as JSON (that would be a \<^verbatim>\<open>JSONDecodeError\<close>); the file is read and its
  point mapped.
\<close>

theorem stdin_content_is_tried_as_a_path:
  "main refpy one_file ''points.json'' \<lparr>json_input = None, use_stdin = True\<rparr> =
     Inr ''https://maps.yandex.ru/?ll=20.0%2C10.0&z=5&lang=ru_RU&pt=20.0%2C10.0%2Cpmwtm1''
   \<and> json_loads refpy ''points.json'' = Inl JSONDecodeError"
  by code_simp

end
